theory Spec2Isabelle
  imports Complex_Main
begin

section \<open>Tensors and errors\<close>

text \<open>
  The class \<^verbatim>\<open>DRBM\<close> of \<^verbatim>\<open>drbm.py\<close> is embedded by the values its methods compute in
  one evaluation. A \<^verbatim>\<open>floatX\<close> number is a real number, a vector is the list of its
  entries, and a matrix is the list of its rows. A list of rows does not carry a column
  count when it has no row, so the operations that need the column count of an operand
  take it as an argument. Every exception of the source is a value of \<open>error\<close>.
\<close>

type_synonym vector = "real list"
type_synonym matrix = "real list list"

datatype error = TypeError | ValueError | IndexError | ZeroDivisionError

definition has_shape :: "matrix \<Rightarrow> nat \<Rightarrow> nat \<Rightarrow> bool" where
  "has_shape m r c = (length m = r \<and> list_all (\<lambda>row. length row = c) m)"

text \<open>\<^verbatim>\<open>T.dot(a, b)\<close> for a matrix \<open>a\<close> and a matrix \<open>b\<close> of \<open>n\<close> columns.\<close>

definition T_dot :: "matrix \<Rightarrow> matrix \<Rightarrow> nat \<Rightarrow> matrix" where
  "T_dot a b n =
     map (\<lambda>row. map (\<lambda>j. \<Sum>i\<leftarrow>[0..<length b]. row ! i * b ! i ! j) [0..<n]) a"

text \<open>\<^verbatim>\<open>T.dot(a, x)\<close> for a matrix \<open>a\<close> and a vector \<open>x\<close>.\<close>

definition T_dot_vec :: "matrix \<Rightarrow> vector \<Rightarrow> vector" where
  "T_dot_vec a x = map (\<lambda>row. \<Sum>i\<leftarrow>[0..<length x]. row ! i * x ! i) a"

text \<open>\<^verbatim>\<open>m.T\<close> for a matrix \<open>m\<close> of \<open>n\<close> columns.\<close>

definition T_transpose :: "matrix \<Rightarrow> nat \<Rightarrow> matrix" where
  "T_transpose m n = map (\<lambda>j. map (\<lambda>row. row ! j) m) [0..<n]"

text \<open>\<^verbatim>\<open>a + x\<close> for a matrix and a vector: the vector is added to every row.\<close>

definition add_row :: "matrix \<Rightarrow> vector \<Rightarrow> matrix" where
  "add_row a x = map (\<lambda>row. map2 (+) row x) a"

definition add_mat :: "matrix \<Rightarrow> matrix \<Rightarrow> matrix" where
  "add_mat a b = map2 (map2 (+)) a b"

text \<open>\<^verbatim>\<open>T.sum(a, axis=1)\<close>.\<close>

definition sum_axis1 :: "matrix \<Rightarrow> vector" where
  "sum_axis1 a = map sum_list a"

definition sigmoid :: "real \<Rightarrow> real" where
  "sigmoid x = 1 / (1 + exp (- x))"

section \<open>The library\<close>

text \<open>
  The routines of Theano and NumPy that the class calls and that are more than
  arithmetic are parameters of the model: the numerically stable
  \<^verbatim>\<open>T.nnet.softplus\<close>, and the generators \<^verbatim>\<open>theano_rng.binomial(size=p.shape, n=1, p=p)\<close>,
  \<^verbatim>\<open>numpy_rng.rand(m, n)\<close>, \<^verbatim>\<open>numpy_rng.uniform(low, high, size=(m, n))\<close> and
  \<^verbatim>\<open>numpy_rng.randint(n)\<close>, which take the random state \<open>'r\<close> of the process (both
  generators) and return the draw with the next state.
\<close>

record 'r lib =
  nnet_softplus :: "real \<Rightarrow> real"
  rng_binomial :: "'r \<Rightarrow> matrix \<Rightarrow> matrix \<times> 'r"
  rng_rand :: "'r \<Rightarrow> nat \<Rightarrow> nat \<Rightarrow> matrix \<times> 'r"
  rng_uniform :: "'r \<Rightarrow> real \<Rightarrow> real \<Rightarrow> nat \<Rightarrow> nat \<Rightarrow> matrix \<times> 'r"
  rng_randint :: "'r \<Rightarrow> nat \<Rightarrow> nat \<times> 'r"

section \<open>The model object\<close>

record drbm =
  n_visible :: nat
  n_hidden :: nat
  n_label :: nat
  alpha :: real
  input :: matrix
  input_label :: matrix
  U :: matrix
  W :: matrix
  hbias :: vector
  vbias :: vector
  labbias :: vector

text \<open>The shapes the constructor gives the parameters.\<close>

definition wf_params :: "drbm \<Rightarrow> bool" where
  "wf_params p =
     (has_shape (W p) (n_visible p) (n_hidden p) \<and>
      has_shape (U p) (n_label p) (n_hidden p) \<and>
      length (hbias p) = n_hidden p \<and>
      length (vbias p) = n_visible p \<and>
      length (labbias p) = n_label p)"

section \<open>Free energy\<close>

text \<open>
  \<^verbatim>\<open>free_energy(self, v_sample, lab_sample)\<close>. The sums of the three terms of
  \<^verbatim>\<open>wx_b\<close> need \<^verbatim>\<open>v_sample\<close> and \<^verbatim>\<open>lab_sample\<close> to have the widths of \<^verbatim>\<open>W\<close> and
  \<^verbatim>\<open>U\<close> and the same number of rows; Theano raises ValueError otherwise.
\<close>

definition free_energy :: "'r lib \<Rightarrow> drbm \<Rightarrow> matrix \<Rightarrow> matrix \<Rightarrow> error + vector" where
  "free_energy L p v_sample lab_sample =
     (if has_shape v_sample (length v_sample) (n_visible p) \<and>
         has_shape lab_sample (length v_sample) (n_label p)
      then
        let wx_b = add_mat (add_row (T_dot v_sample (W p) (n_hidden p)) (hbias p))
                     (T_dot lab_sample (U p) (n_hidden p));
            hidden_term = sum_axis1 (map (map (nnet_softplus L)) wx_b);
            label_term = T_dot_vec lab_sample (labbias p)
        in Inr (map2 (\<lambda>h l. - h - l) hidden_term label_term)
      else Inl ValueError)"

section \<open>Conditional inference\<close>

definition bind_err :: "error + 'a \<Rightarrow> ('a \<Rightarrow> error + 'b) \<Rightarrow> error + 'b" where
  "bind_err m f = (case m of Inl e \<Rightarrow> Inl e | Inr x \<Rightarrow> f x)"

text \<open>\<^verbatim>\<open>propup(self, vis, lab)\<close>.\<close>

definition propup :: "drbm \<Rightarrow> matrix \<Rightarrow> matrix \<Rightarrow> error + (matrix \<times> matrix)" where
  "propup p vis lab =
     (if has_shape vis (length vis) (n_visible p) \<and> has_shape lab (length vis) (n_label p)
      then
        let pre_sigmoid_activation =
              add_mat (add_row (T_dot vis (W p) (n_hidden p)) (hbias p))
                (T_dot lab (U p) (n_hidden p))
        in Inr (pre_sigmoid_activation, map (map sigmoid) pre_sigmoid_activation)
      else Inl ValueError)"

text \<open>\<^verbatim>\<open>sample_h_given_v(self, v0_sample, l0_sample)\<close>.\<close>

definition sample_h_given_v ::
  "'r lib \<Rightarrow> drbm \<Rightarrow> 'r \<Rightarrow> matrix \<Rightarrow> matrix \<Rightarrow> error + ((matrix \<times> matrix \<times> matrix) \<times> 'r)" where
  "sample_h_given_v L p s v0_sample l0_sample =
     bind_err (propup p v0_sample l0_sample) (\<lambda>(pre_sigmoid_h1, h1_mean).
       let (h1_sample, s') = rng_binomial L s h1_mean
       in Inr ((pre_sigmoid_h1, h1_mean, h1_sample), s'))"

text \<open>
  A Python call binds its positional arguments to the parameters of the method and
  raises TypeError when a parameter without a default is left unbound. The class calls
  \<^verbatim>\<open>sample_h_given_v\<close> and \<^verbatim>\<open>free_energy\<close> with differing numbers of arguments, so
  the calls of these two methods pass the list of their arguments.
\<close>

definition call_sample_h_given_v ::
  "'r lib \<Rightarrow> drbm \<Rightarrow> 'r \<Rightarrow> matrix list \<Rightarrow> error + ((matrix \<times> matrix \<times> matrix) \<times> 'r)" where
  "call_sample_h_given_v L p s args =
     (case args of
        [v0_sample, l0_sample] \<Rightarrow> sample_h_given_v L p s v0_sample l0_sample
      | _ \<Rightarrow> Inl TypeError)"

definition call_free_energy :: "'r lib \<Rightarrow> drbm \<Rightarrow> matrix list \<Rightarrow> error + vector" where
  "call_free_energy L p args =
     (case args of
        [v_sample, lab_sample] \<Rightarrow> free_energy L p v_sample lab_sample
      | _ \<Rightarrow> Inl TypeError)"

text \<open>\<^verbatim>\<open>propdown(self, hid)\<close>.\<close>

definition propdown :: "drbm \<Rightarrow> matrix \<Rightarrow> error + (matrix \<times> matrix)" where
  "propdown p hid =
     (if has_shape hid (length hid) (n_hidden p)
      then
        let pre_sigmoid_activation =
              add_row (T_dot hid (T_transpose (W p) (n_hidden p)) (n_visible p)) (vbias p)
        in Inr (pre_sigmoid_activation, map (map sigmoid) pre_sigmoid_activation)
      else Inl ValueError)"

text \<open>\<^verbatim>\<open>sample_v_given_h(self, h0_sample)\<close>.\<close>

definition sample_v_given_h ::
  "'r lib \<Rightarrow> drbm \<Rightarrow> 'r \<Rightarrow> matrix \<Rightarrow> error + ((matrix \<times> matrix \<times> matrix) \<times> 'r)" where
  "sample_v_given_h L p s h0_sample =
     bind_err (propdown p h0_sample) (\<lambda>(pre_sigmoid_v1, v1_mean).
       let (v1_sample, s') = rng_binomial L s v1_mean
       in Inr ((pre_sigmoid_v1, v1_mean, v1_sample), s'))"

text \<open>
  \<^verbatim>\<open>propdown_label(self, hid)\<close>. The column \<^verbatim>\<open>norm\<close> of row sums divides every entry
  of its row.
\<close>

definition propdown_label :: "drbm \<Rightarrow> matrix \<Rightarrow> error + (matrix \<times> matrix)" where
  "propdown_label p hid =
     (if has_shape hid (length hid) (n_hidden p)
      then
        let pre_norm_activation =
              map (map exp)
                (add_row (T_dot hid (T_transpose (U p) (n_hidden p)) (n_label p)) (labbias p));
            norm_factor = sum_axis1 pre_norm_activation;
            probs = map2 (\<lambda>row nrm. map (\<lambda>x. x / nrm) row) pre_norm_activation norm_factor
        in Inr (pre_norm_activation, probs)
      else Inl ValueError)"

text \<open>\<^verbatim>\<open>cumsum(probs, 1)\<close>: the running sums of every row.\<close>

fun cumsum_from :: "real \<Rightarrow> vector \<Rightarrow> vector" where
  "cumsum_from acc [] = []"
| "cumsum_from acc (x # xs) = (acc + x) # cumsum_from (acc + x) xs"

definition cumsum :: "matrix \<Rightarrow> matrix" where
  "cumsum m = map (cumsum_from 0) m"

text \<open>
  \<^verbatim>\<open>numpy.less_equal(a, b)\<close> on two vectors: entry by entry when the lengths agree, a
  vector of one entry is compared with every entry of the other, and any other pair of
  lengths raises ValueError.
\<close>

definition less_equal :: "vector \<Rightarrow> vector \<Rightarrow> error + bool list" where
  "less_equal a b =
     (if length a = length b then Inr (map2 (\<le>) a b)
      else if length a = 1 then Inr (map (\<lambda>y. a ! 0 \<le> y) b)
      else if length b = 1 then Inr (map (\<lambda>x. x \<le> b ! 0) a)
      else Inl ValueError)"

text \<open>\<^verbatim>\<open>numpy.where(c)\<close>: the indices of the true entries.\<close>

definition where_true :: "bool list \<Rightarrow> nat list" where
  "where_true c = filter (\<lambda>i. c ! i) [0..<length c]"

text \<open>\<^verbatim>\<open>numpy.min\<close> raises ValueError on an empty array.\<close>

definition numpy_min :: "nat list \<Rightarrow> error + nat" where
  "numpy_min xs = (if xs = [] then Inl ValueError else Inr (Min (set xs)))"

text \<open>
  The loop \<^verbatim>\<open>for jj in range(0, batch_size)\<close> of \<^verbatim>\<open>sample_lab_given_h\<close> over the
  indices still to visit. Reading row \<open>jj\<close> of \<^verbatim>\<open>xx1\<close> or \<^verbatim>\<open>xx\<close> out of range, or
  writing \<^verbatim>\<open>neg_labs[jj, index]\<close> out of range, raises IndexError.
\<close>

fun neg_labs_loop :: "matrix \<Rightarrow> matrix \<Rightarrow> nat list \<Rightarrow> matrix \<Rightarrow> error + matrix" where
  "neg_labs_loop xx1 xx [] neg_labs = Inr neg_labs"
| "neg_labs_loop xx1 xx (jj # js) neg_labs =
     (if jj < length xx1 \<and> jj < length xx
      then
        bind_err (less_equal (xx1 ! jj) (xx ! jj)) (\<lambda>c.
        bind_err (numpy_min (where_true c)) (\<lambda>index.
          if jj < length neg_labs \<and> index < length (neg_labs ! jj)
          then neg_labs_loop xx1 xx js (neg_labs[jj := (neg_labs ! jj)[index := 1]])
          else Inl IndexError))
      else Inl IndexError)"

text \<open>\<^verbatim>\<open>sample_lab_given_h(self, h0_sample)\<close>.\<close>

definition sample_lab_given_h ::
  "'r lib \<Rightarrow> drbm \<Rightarrow> 'r \<Rightarrow> matrix \<Rightarrow> error + ((matrix \<times> matrix \<times> matrix) \<times> 'r)" where
  "sample_lab_given_h L p s h0_sample =
     bind_err (propdown_label p h0_sample) (\<lambda>(pre_norm_lab1, lab1_mean).
       let probs = lab1_mean;
           batch_size = 20;
           xx = cumsum probs;
           (xx1, s') = rng_rand L s batch_size 1;
           neg_labs = replicate batch_size (replicate (n_label p) 0)
       in bind_err (neg_labs_loop xx1 xx [0..<batch_size] neg_labs) (\<lambda>neg_labs_theano.
            Inr ((pre_norm_lab1, lab1_mean, neg_labs_theano), s')))"

section \<open>Gibbs steps\<close>

type_synonym step_out =
  "matrix \<times> matrix \<times> matrix \<times> matrix \<times> matrix \<times> matrix \<times> matrix \<times> matrix \<times> matrix"


text \<open>
  \<^verbatim>\<open>gibbs_vhv(self, v0_sample)\<close>. Its first call passes \<^verbatim>\<open>v0_sample\<close> alone to
  \<^verbatim>\<open>sample_h_given_v\<close>.
\<close>

definition gibbs_vhv ::
  "'r lib \<Rightarrow> drbm \<Rightarrow> 'r \<Rightarrow> matrix \<Rightarrow> error + (step_out \<times> 'r)" where
  "gibbs_vhv L p s v0_sample =
     bind_err (call_sample_h_given_v L p s [v0_sample])
       (\<lambda>((pre_sigmoid_h1, h1_mean, h1_sample), s1).
     bind_err (sample_v_given_h L p s1 h1_sample)
       (\<lambda>((pre_sigmoid_v1, v1_mean, v1_sample), s2).
     bind_err (sample_lab_given_h L p s2 h1_sample)
       (\<lambda>((pre_sigmoid_l1, l1_mean, l1_sample), s3).
     Inr ((pre_sigmoid_h1, h1_mean, h1_sample,
           pre_sigmoid_v1, v1_mean, v1_sample,
           pre_sigmoid_l1, l1_mean, l1_sample), s3))))"

section \<open>Construction\<close>

text \<open>
  The block \<^verbatim>\<open>if U is None\<close> of \<^verbatim>\<open>__init__\<close>: the bounds and the size it passes to
  \<^verbatim>\<open>numpy_rng.uniform\<close>. The float division raises ZeroDivisionError on a zero
  denominator.
\<close>

definition initial_U :: "'r lib \<Rightarrow> 'r \<Rightarrow> nat \<Rightarrow> nat \<Rightarrow> nat \<Rightarrow> error + (matrix \<times> 'r)" where
  "initial_U L s n_vis n_hid n_lab =
     (if n_vis + n_lab = 0 then Inl ZeroDivisionError
      else Inr (rng_uniform L s
                  (- 4 * sqrt (6 / real (n_vis + n_lab)))
                  (4 * sqrt (6 / real (n_vis + n_lab)))
                  n_lab n_hid))"

text \<open>The block \<^verbatim>\<open>if W is None\<close> of \<^verbatim>\<open>__init__\<close>.\<close>

definition initial_W :: "'r lib \<Rightarrow> 'r \<Rightarrow> nat \<Rightarrow> nat \<Rightarrow> nat \<Rightarrow> error + (matrix \<times> 'r)" where
  "initial_W L s n_vis n_hid n_lab =
     (if n_hid + n_vis = 0 then Inl ZeroDivisionError
      else Inr (rng_uniform L s
                  (- 4 * sqrt (6 / real (n_hid + n_vis)))
                  (4 * sqrt (6 / real (n_hid + n_vis)))
                  n_vis n_hid))"

text \<open>
  \<^verbatim>\<open>__init__\<close>. The arguments are those of the source in its order; \<open>s\<close> is the state
  of \<^verbatim>\<open>numpy_rng\<close> (the given generator, or the fresh one seeded with 1234), and
  \<open>theano_rng_given\<close> tells whether \<^verbatim>\<open>theano_rng\<close> was passed: when it was not, its seed
  is drawn from \<^verbatim>\<open>numpy_rng\<close> first. The input is the matrix bound to the batch.
\<close>

definition init ::
  "'r lib \<Rightarrow> matrix \<Rightarrow> matrix \<Rightarrow> nat \<Rightarrow> nat \<Rightarrow> nat \<Rightarrow> matrix option \<Rightarrow> matrix option \<Rightarrow>
   vector option \<Rightarrow> vector option \<Rightarrow> vector option \<Rightarrow> 'r \<Rightarrow> bool \<Rightarrow> real \<Rightarrow> error + (drbm \<times> 'r)" where
  "init L inp inp_label n_vis n_hid n_lab U_arg W_arg labbias_arg hbias_arg vbias_arg
        s theano_rng_given alpha_arg =
     (let s0 = (if theano_rng_given then s else snd (rng_randint L s (2 ^ 30)))
      in
      bind_err (case U_arg of None \<Rightarrow> initial_U L s0 n_vis n_hid n_lab
                | Some u \<Rightarrow> Inr (u, s0)) (\<lambda>(u, s1).
      bind_err (case W_arg of None \<Rightarrow> initial_W L s1 n_vis n_hid n_lab
                | Some w \<Rightarrow> Inr (w, s1)) (\<lambda>(w, s2).
        let hb = (case hbias_arg of None \<Rightarrow> replicate n_hid 0 | Some b \<Rightarrow> b);
            vb = (case vbias_arg of None \<Rightarrow> replicate n_vis 0 | Some b \<Rightarrow> b);
            lb = (case labbias_arg of None \<Rightarrow> replicate n_lab 0 | Some b \<Rightarrow> b)
        in Inr (\<lparr>n_visible = n_vis, n_hidden = n_hid, n_label = n_lab, alpha = alpha_arg,
                  input = inp, input_label = inp_label,
                  U = u, W = w, hbias = hb, vbias = vb, labbias = lb\<rparr>, s2))))"

section \<open>The stages of get-cost-updates\<close>

text \<open>
  \<^verbatim>\<open>get_cost_updates\<close> differentiates its cost with \<^verbatim>\<open>T.grad\<close>, which works on the
  expression graph and has no counterpart on values. Its other stages are embedded one by
  one, each from its lines of the source.
\<close>

text \<open>
  The seed stage: the positive phase and the choice of the start of the negative chain.
  \<open>persistent\<close> and \<open>neglab\<close> are \<open>None\<close> for Python's \<^verbatim>\<open>None\<close>.
\<close>

definition get_cost_updates_seed ::
  "'r lib \<Rightarrow> drbm \<Rightarrow> 'r \<Rightarrow> matrix option \<Rightarrow> matrix option \<Rightarrow> error + ((matrix \<times> matrix) \<times> 'r)" where
  "get_cost_updates_seed L p s persistent neglab =
     bind_err (call_sample_h_given_v L p s [input p, input_label p])
       (\<lambda>((pre_sigmoid_ph, ph_mean, ph_sample), s').
         let chain_start = (case persistent of None \<Rightarrow> ph_sample | Some b \<Rightarrow> b);
             chain_lab_start = (case neglab of None \<Rightarrow> input_label p | Some n \<Rightarrow> n)
         in Inr ((chain_start, chain_lab_start), s'))"

text \<open>
  \<^verbatim>\<open>T.sum(x)\<close> and \<^verbatim>\<open>T.mean(x)\<close> without an axis reduce a tensor of any rank to a
  scalar: the sum of all entries, and that sum divided by the number of entries. A
  scalar has one entry.
\<close>

datatype tensor = Scalar real | Vector vector | Matrix matrix

fun T_sum :: "tensor \<Rightarrow> tensor" where
  "T_sum (Scalar x) = Scalar x"
| "T_sum (Vector v) = Scalar (sum_list v)"
| "T_sum (Matrix m) = Scalar (sum_list (map sum_list m))"

fun T_size :: "tensor \<Rightarrow> nat" where
  "T_size (Scalar x) = 1"
| "T_size (Vector v) = length v"
| "T_size (Matrix m) = sum_list (map length m)"

fun T_mean :: "tensor \<Rightarrow> tensor" where
  "T_mean t = (case T_sum t of Scalar x \<Rightarrow> Scalar (x / real (T_size t)) | u \<Rightarrow> u)"

definition sub_mat :: "matrix \<Rightarrow> matrix \<Rightarrow> matrix" where
  "sub_mat a b = map2 (map2 (-)) a b"

definition same_shape :: "matrix \<Rightarrow> matrix \<Rightarrow> bool" where
  "same_shape a b = list_all2 (\<lambda>x y. length x = length y) a b"

text \<open>
  The discriminative cost \<^verbatim>\<open>T.mean(T.sum(self.input_label - y_sampled))\<close> of the score
  stage, for the label batch and the value of \<^verbatim>\<open>y_sampled\<close>. The difference of two
  matrices of different shapes raises ValueError.
\<close>

definition cost_discriminative :: "matrix \<Rightarrow> matrix \<Rightarrow> error + tensor" where
  "cost_discriminative inp_label y_sampled =
     (if same_shape inp_label y_sampled
      then Inr (T_mean (T_sum (Matrix (sub_mat inp_label y_sampled))))
      else Inl ValueError)"

section \<open>Monitoring costs\<close>

text \<open>The shared variables that the updates dictionary maps to their new values.\<close>

datatype shared = Param_W | Param_hbias | Param_vbias | Param_U | Param_labbias
  | Persistent | Bit_i_idx

datatype val = Mat matrix | Vec vector | Idx nat

type_synonym updates = "shared \<rightharpoonup> val"

text \<open>\<^verbatim>\<open>T.round\<close> rounds half away from zero.\<close>

definition T_round :: "real \<Rightarrow> real" where
  "T_round x = (if 0 \<le> x then of_int \<lfloor>x + 1 / 2\<rfloor> else of_int \<lceil>x - 1 / 2\<rceil>)"

definition mean_vec :: "vector \<Rightarrow> real" where
  "mean_vec v = sum_list v / real (length v)"

text \<open>
  \<^verbatim>\<open>get_pseudo_likelihood_cost(self, updates)\<close>, at the value \<open>bit_i_idx\<close> of the shared
  counter. Both calls of \<^verbatim>\<open>free_energy\<close> pass one argument.
\<close>

definition get_pseudo_likelihood_cost ::
  "'r lib \<Rightarrow> drbm \<Rightarrow> nat \<Rightarrow> updates \<Rightarrow> error + (real \<times> updates)" where
  "get_pseudo_likelihood_cost L p bit_i_idx upd =
     (let xi = map (map T_round) (input p)
      in
      bind_err (call_free_energy L p [xi]) (\<lambda>fe_xi.
      bind_err (if list_all (\<lambda>row. bit_i_idx < length row) xi
                then Inr (map (\<lambda>row. row[bit_i_idx := 1 - row ! bit_i_idx]) xi)
                else Inl IndexError) (\<lambda>xi_flip.
      bind_err (call_free_energy L p [xi_flip]) (\<lambda>fe_xi_flip.
        let cost = mean_vec (map2 (\<lambda>a b. real (n_visible p) * ln (sigmoid (a - b)))
                               fe_xi_flip fe_xi)
        in Inr (cost, upd(Bit_i_idx \<mapsto> Idx ((bit_i_idx + 1) mod n_visible p)))))))"

text \<open>\<^verbatim>\<open>get_reconstruction_cost(self, updates, pre_sigmoid_nv)\<close>.\<close>

definition get_reconstruction_cost :: "drbm \<Rightarrow> updates \<Rightarrow> matrix \<Rightarrow> error + real" where
  "get_reconstruction_cost p upd pre_sigmoid_nv =
     (if same_shape (input p) pre_sigmoid_nv
      then
        let cross_entropy = mean_vec (sum_axis1
              (map2 (map2 (\<lambda>x y. x * ln (sigmoid y) + (1 - x) * ln (1 - sigmoid y)))
                 (input p) pre_sigmoid_nv))
        in Inr cross_entropy
      else Inl ValueError)"

text \<open>\<^verbatim>\<open>xs[-1]\<close> raises IndexError on an empty sequence.\<close>

definition last_item :: "'a list \<Rightarrow> error + 'a" where
  "last_item xs = (if xs = [] then Inl IndexError else Inr (last xs))"

text \<open>
  The last stage of \<^verbatim>\<open>get_cost_updates\<close>, from \<^verbatim>\<open>if persistent\<close> to the return: the
  updates built so far, the hidden samples and the visible pre-activations of the chain.
  A shared variable is true in a condition, \<^verbatim>\<open>None\<close> is false.
\<close>

definition get_cost_updates_monitor ::
  "'r lib \<Rightarrow> drbm \<Rightarrow> nat \<Rightarrow> matrix option \<Rightarrow> updates \<Rightarrow> matrix list \<Rightarrow> matrix list \<Rightarrow>
   error + (real \<times> updates)" where
  "get_cost_updates_monitor L p bit_i_idx persistent upd nh_samples pre_sigmoid_nvs =
     (if persistent \<noteq> None
      then
        bind_err (last_item nh_samples) (\<lambda>nh.
        bind_err (get_pseudo_likelihood_cost L p bit_i_idx (upd(Persistent \<mapsto> Mat nh)))
          (\<lambda>(monitoring_cost, upd'). Inr (monitoring_cost, upd')))
      else
        bind_err (last_item pre_sigmoid_nvs) (\<lambda>pre_sigmoid_nv.
        bind_err (get_reconstruction_cost p upd pre_sigmoid_nv)
          (\<lambda>monitoring_cost. Inr (monitoring_cost, upd))))"

text \<open>
  The cost that the specification names for the discriminative term: the mean over the
  rows of the batch of the row sums of the residual.
\<close>

definition spec_discriminative_cost :: "matrix \<Rightarrow> matrix \<Rightarrow> real" where
  "spec_discriminative_cost inp_label y =
     sum_list (map sum_list (sub_mat inp_label y)) / real (length inp_label)"

section \<open>Notions used in the statements\<close>

text \<open>The pre-activation \<^verbatim>\<open>T.dot(v, W) + hbias + T.dot(lab, U)\<close>.\<close>

definition pre_act :: "drbm \<Rightarrow> matrix \<Rightarrow> matrix \<Rightarrow> matrix" where
  "pre_act p v lab =
     add_mat (add_row (T_dot v (W p) (n_hidden p)) (hbias p)) (T_dot lab (U p) (n_hidden p))"



section \<open>A concrete library and a small model\<close>

text \<open>
  A library whose generators are deterministic: the binomial draw rounds the mean, and
  every uniform draw is the same number \<open>u\<close> of the unit interval. The random state counts
  the draws.
\<close>

definition demo_lib :: "real \<Rightarrow> nat lib" where
  "demo_lib u =
     \<lparr>nnet_softplus = (\<lambda>x. ln (1 + exp x)),
      rng_binomial = (\<lambda>s m. (map (map (\<lambda>x. if 1 / 2 \<le> x then 1 else 0)) m, Suc s)),
      rng_rand = (\<lambda>s m n. (replicate m (replicate n u), Suc s)),
      rng_uniform = (\<lambda>s lo hi m n. (replicate m (replicate n (lo + (hi - lo) * u)), Suc s)),
      rng_randint = (\<lambda>s n. (0, Suc s))\<rparr>"

text \<open>
  A model of one visible unit, one hidden unit and two labels whose label
  probabilities are 0.2 and 0.8 for every hidden state.
\<close>

definition tiny :: drbm where
  "tiny =
     \<lparr>n_visible = 1, n_hidden = 1, n_label = 2, alpha = 1 / 100,
      input = [[1]], input_label = [[1, 0]],
      U = [[0], [0]], W = [[0]], hbias = [0], vbias = [0],
      labbias = [ln (1 / 5), ln (4 / 5)]\<rparr>"

section \<open>Facts about the tensor operations\<close>

lemma sum_list_upt: "(\<Sum>i\<leftarrow>[0..<n]. f i) = (\<Sum>i<n. f i)"
  by (simp add: interv_sum_list_conv_sum_set_nat lessThan_atLeast0)

lemma has_shape_row: "has_shape m r c \<Longrightarrow> i < r \<Longrightarrow> length (m ! i) = c"
  by (simp add: has_shape_def list_all_length)

lemma T_dot_entry:
  "r < length a \<Longrightarrow> j < n \<Longrightarrow> T_dot a b n ! r ! j = (\<Sum>i<length b. a ! r ! i * b ! i ! j)"
  by (simp add: T_dot_def sum_list_upt)

lemma T_dot_shape: "has_shape (T_dot a b n) (length a) n"
  by (simp add: T_dot_def has_shape_def list_all_iff)

lemma T_dot_vec_entry:
  "r < length a \<Longrightarrow> T_dot_vec a x ! r = (\<Sum>i<length x. a ! r ! i * x ! i)"
  by (simp add: T_dot_vec_def sum_list_upt)

lemma add_row_shape: "has_shape a r c \<Longrightarrow> length x = c \<Longrightarrow> has_shape (add_row a x) r c"
  by (simp add: add_row_def has_shape_def list_all_iff)

lemma add_row_entry:
  "r < length a \<Longrightarrow> j < length (a ! r) \<Longrightarrow> j < length x \<Longrightarrow> add_row a x ! r ! j = a ! r ! j + x ! j"
  by (simp add: add_row_def)

lemma add_mat_shape: "has_shape a r c \<Longrightarrow> has_shape b r c \<Longrightarrow> has_shape (add_mat a b) r c"
  by (auto simp: add_mat_def has_shape_def list_all_length)

lemma add_mat_entry:
  "r < length a \<Longrightarrow> r < length b \<Longrightarrow> j < length (a ! r) \<Longrightarrow> j < length (b ! r) \<Longrightarrow>
   add_mat a b ! r ! j = a ! r ! j + b ! r ! j"
  by (simp add: add_mat_def)

lemma sum_list_nth: "sum_list xs = (\<Sum>j<length xs. xs ! j)"
  by (simp add: sum_list_sum_nth lessThan_atLeast0)

lemma pre_act_shape:
  "wf_params p \<Longrightarrow> length lab = length v \<Longrightarrow> has_shape (pre_act p v lab) (length v) (n_hidden p)"
  unfolding pre_act_def
  by (metis T_dot_shape add_mat_shape add_row_shape wf_params_def)

lemma pre_act_entry:
  assumes "wf_params p" "length lab = length v" "r < length v" "j < n_hidden p"
  shows "pre_act p v lab ! r ! j =
           hbias p ! j + (\<Sum>i<n_visible p. v ! r ! i * W p ! i ! j)
             + (\<Sum>c<n_label p. lab ! r ! c * U p ! c ! j)"
proof -
  have lw: "length (W p) = n_visible p" and lu: "length (U p) = n_label p"
    and lh: "length (hbias p) = n_hidden p"
    using assms(1) by (simp_all add: wf_params_def has_shape_def)
  have s1: "has_shape (T_dot v (W p) (n_hidden p)) (length v) (n_hidden p)"
    by (rule T_dot_shape)
  have s2: "has_shape (T_dot lab (U p) (n_hidden p)) (length v) (n_hidden p)"
    using T_dot_shape [of lab "U p" "n_hidden p"] assms(2) by simp
  have s3: "has_shape (add_row (T_dot v (W p) (n_hidden p)) (hbias p)) (length v) (n_hidden p)"
    using s1 lh by (rule add_row_shape)
  have l1: "length (T_dot v (W p) (n_hidden p)) = length v"
    and l2: "length (T_dot lab (U p) (n_hidden p)) = length v"
    and l3: "length (add_row (T_dot v (W p) (n_hidden p)) (hbias p)) = length v"
    using s1 s2 s3 by (simp_all add: has_shape_def)
  have r1: "length (T_dot v (W p) (n_hidden p) ! r) = n_hidden p"
    using has_shape_row [OF s1 assms(3)] .
  have r2: "length (T_dot lab (U p) (n_hidden p) ! r) = n_hidden p"
    using has_shape_row [OF s2 assms(3)] .
  have r3: "length (add_row (T_dot v (W p) (n_hidden p)) (hbias p) ! r) = n_hidden p"
    using has_shape_row [OF s3 assms(3)] .
  have "pre_act p v lab ! r ! j =
          add_row (T_dot v (W p) (n_hidden p)) (hbias p) ! r ! j
            + T_dot lab (U p) (n_hidden p) ! r ! j"
    unfolding pre_act_def using assms(3,4) l2 l3 r2 r3 by (simp add: add_mat_entry)
  also have "add_row (T_dot v (W p) (n_hidden p)) (hbias p) ! r ! j =
          T_dot v (W p) (n_hidden p) ! r ! j + hbias p ! j"
    using assms(3,4) l1 r1 lh by (simp add: add_row_entry)
  also have "T_dot v (W p) (n_hidden p) ! r ! j = (\<Sum>i<n_visible p. v ! r ! i * W p ! i ! j)"
    using assms(3,4) lw by (simp add: T_dot_entry)
  also have "T_dot lab (U p) (n_hidden p) ! r ! j = (\<Sum>c<n_label p. lab ! r ! c * U p ! c ! j)"
    using assms(2,3,4) lu by (simp add: T_dot_entry)
  finally show ?thesis by simp
qed

section \<open>Facts about the label sampler\<close>






















section \<open>Facts about the small model\<close>


lemma upt_0_2: "[0..<2] = [0, 1]"
  by (simp add: upt_conv_Cons)









section \<open>Properties\<close>

text \<open>
  C2. For a batch \<open>v\<close> of \<open>B\<close> visible rows and a batch \<open>lab\<close> of \<open>B\<close> label rows,
  \<open>free_energy\<close> returns one number per row, and the number of row \<open>r\<close> is
  \<open>- (\<Sum>j. softplus (hbias j + (v\<cdot>W) r j + (lab\<cdot>U) r j)) - lab r \<cdot> labbias\<close>, where
  softplus is the library's softplus routine, whatever it computes.
\<close>

theorem free_energy_formula:
  assumes "wf_params p" "has_shape v B (n_visible p)" "has_shape lab B (n_label p)"
  shows "\<exists>fe. free_energy L p v lab = Inr fe \<and> length fe = B \<and>
           (\<forall>r<B. fe ! r =
              - (\<Sum>j<n_hidden p. nnet_softplus L
                    (hbias p ! j + (\<Sum>i<n_visible p. v ! r ! i * W p ! i ! j)
                       + (\<Sum>c<n_label p. lab ! r ! c * U p ! c ! j)))
              - (\<Sum>c<n_label p. lab ! r ! c * labbias p ! c))"
proof -
  have lv: "length v = B" and ll: "length lab = B"
    using assms(2,3) by (simp_all add: has_shape_def)
  have llb: "length (labbias p) = n_label p"
    using assms(1) by (simp add: wf_params_def)
  define fe where "fe = map2 (\<lambda>h l. - h - l)
      (sum_axis1 (map (map (nnet_softplus L)) (pre_act p v lab))) (T_dot_vec lab (labbias p))"
  have eq: "free_energy L p v lab = Inr fe"
    using assms(2,3) lv by (simp add: free_energy_def fe_def pre_act_def Let_def)
  have sh: "has_shape (pre_act p v lab) B (n_hidden p)"
    using pre_act_shape [OF assms(1), of lab v] lv ll by simp
  have lp: "length (pre_act p v lab) = B"
    using sh by (simp add: has_shape_def)
  have len: "length fe = B"
    by (simp add: fe_def sum_axis1_def T_dot_vec_def lp ll)
  have ent: "fe ! r =
              - (\<Sum>j<n_hidden p. nnet_softplus L
                    (hbias p ! j + (\<Sum>i<n_visible p. v ! r ! i * W p ! i ! j)
                       + (\<Sum>c<n_label p. lab ! r ! c * U p ! c ! j)))
              - (\<Sum>c<n_label p. lab ! r ! c * labbias p ! c)" if r: "r < B" for r
  proof -
    have rowlen: "length (pre_act p v lab ! r) = n_hidden p"
      using has_shape_row [OF sh r] .
    have "fe ! r = - sum_list (map (nnet_softplus L) (pre_act p v lab ! r))
                     - T_dot_vec lab (labbias p) ! r"
      using r lp ll by (simp add: fe_def sum_axis1_def T_dot_vec_def)
    also have "sum_list (map (nnet_softplus L) (pre_act p v lab ! r)) =
                 (\<Sum>j<n_hidden p. nnet_softplus L (pre_act p v lab ! r ! j))"
      using rowlen by (simp add: sum_list_nth)
    also have "\<dots> = (\<Sum>j<n_hidden p. nnet_softplus L
                    (hbias p ! j + (\<Sum>i<n_visible p. v ! r ! i * W p ! i ! j)
                       + (\<Sum>c<n_label p. lab ! r ! c * U p ! c ! j)))"
      using pre_act_entry [OF assms(1), of lab v r] r lv ll by simp
    also have "T_dot_vec lab (labbias p) ! r = (\<Sum>c<n_label p. lab ! r ! c * labbias p ! c)"
      using r ll llb by (simp add: T_dot_vec_entry)
    finally show ?thesis .
  qed
  from eq len ent show ?thesis by blast
qed

theorem free_energy_formula_witness:
  "wf_params tiny \<and> has_shape [[1]] 1 (n_visible tiny) \<and> has_shape [[1, 0]] 1 (n_label tiny) \<and>
   (\<exists>fe. free_energy (demo_lib (1 / 10)) tiny [[1]] [[1, 0]] = Inr fe \<and> length fe = 1 \<and>
      fe ! 0 = - ln 2 - ln (1 / 5))"
proof -
  have h1: "wf_params tiny" by (simp add: wf_params_def tiny_def has_shape_def)
  have h2: "has_shape [[1]] 1 (n_visible tiny)" by (simp add: tiny_def has_shape_def)
  have h3: "has_shape [[1, 0]] 1 (n_label tiny)" by (simp add: tiny_def has_shape_def)
  from free_energy_formula [OF h1 h2 h3, of "demo_lib (1 / 10)"]
  obtain fe where fe: "free_energy (demo_lib (1 / 10)) tiny [[1]] [[1, 0]] = Inr fe"
      "length fe = 1"
      "\<forall>r<1. fe ! r =
         - (\<Sum>j<n_hidden tiny. nnet_softplus (demo_lib (1 / 10))
               (hbias tiny ! j + (\<Sum>i<n_visible tiny. [[1]] ! r ! i * W tiny ! i ! j)
                  + (\<Sum>c<n_label tiny. [[1, 0]] ! r ! c * U tiny ! c ! j)))
         - (\<Sum>c<n_label tiny. [[1, 0]] ! r ! c * labbias tiny ! c)"
    by blast
  from fe(3) have "fe ! 0 = - ln 2 - ln (1 / 5)"
    by (simp add: tiny_def demo_lib_def lessThan_Suc numeral_2_eq_2)
  with h1 h2 h3 fe(1,2) show ?thesis by blast
qed



text \<open>
  C4. In the seed stage of \<open>get_cost_updates\<close>, on a batch whose rows fit the model, the
  hidden seed of the negative chain is the positive-phase hidden sample (the binomial
  draw at the sigmoid of the pre-activation of the input and its labels) when
  \<open>persistent\<close> is absent and the persistent buffer otherwise, and the label seed is the
  input label when \<open>neglab\<close> is absent and the given buffer otherwise.
\<close>

theorem seed_choice:
  assumes "has_shape (input p) B (n_visible p)" "has_shape (input_label p) B (n_label p)"
  shows "get_cost_updates_seed L p s persistent neglab =
           Inr ((case persistent of
                   None \<Rightarrow> fst (rng_binomial L s (map (map sigmoid) (pre_act p (input p) (input_label p))))
                 | Some b \<Rightarrow> b,
                 case neglab of None \<Rightarrow> input_label p | Some n \<Rightarrow> n),
                snd (rng_binomial L s (map (map sigmoid) (pre_act p (input p) (input_label p)))))"
proof -
  from assms have "length (input p) = B" by (simp add: has_shape_def)
  with assms have "propup p (input p) (input_label p) =
      Inr (pre_act p (input p) (input_label p),
           map (map sigmoid) (pre_act p (input p) (input_label p)))"
    by (simp add: propup_def pre_act_def Let_def)
  then show ?thesis
    by (simp add: get_cost_updates_seed_def call_sample_h_given_v_def sample_h_given_v_def
        bind_err_def Let_def case_prod_beta)
qed

theorem seed_choice_witness:
  "has_shape (input tiny) 1 (n_visible tiny) \<and> has_shape (input_label tiny) 1 (n_label tiny) \<and>
   get_cost_updates_seed (demo_lib (1 / 10)) tiny 0 None None = Inr (([[1]], [[1, 0]]), 1) \<and>
   get_cost_updates_seed (demo_lib (1 / 10)) tiny 0 (Some [[0]]) (Some [[0, 1]]) =
     Inr (([[0]], [[0, 1]]), 1)"
proof -
  have h1: "has_shape (input tiny) 1 (n_visible tiny)" by (simp add: tiny_def has_shape_def)
  have h2: "has_shape (input_label tiny) 1 (n_label tiny)" by (simp add: tiny_def has_shape_def)
  have pa: "pre_act tiny (input tiny) (input_label tiny) = [[0]]"
    by (simp add: pre_act_def tiny_def T_dot_def add_row_def add_mat_def upt_0_2)
  have b: "rng_binomial (demo_lib (1 / 10)) 0
             (map (map sigmoid) (pre_act tiny (input tiny) (input_label tiny))) = ([[1]], 1)"
    by (simp add: pa demo_lib_def sigmoid_def)
  have il: "input_label tiny = [[1, 0]]" by (simp add: tiny_def)
  have a: "get_cost_updates_seed (demo_lib (1 / 10)) tiny 0 None None = Inr (([[1]], [[1, 0]]), 1)"
    using seed_choice [OF h1 h2, of "demo_lib (1 / 10)" 0 None None] unfolding b
    by (simp add: il)
  have c: "get_cost_updates_seed (demo_lib (1 / 10)) tiny 0 (Some [[0]]) (Some [[0, 1]]) =
     Inr (([[0]], [[0, 1]]), 1)"
    using seed_choice [OF h1 h2, of "demo_lib (1 / 10)" 0 "Some [[0]]" "Some [[0, 1]]"] unfolding b
    by simp
  from h1 h2 a c show ?thesis by blast
qed

text \<open>
  C5 (the code differs). With the default sizes 784, 500 and 2 and no parameter given,
  \<open>init\<close> returns, having drawn \<open>U\<close> of size 2 by 500 between \<open>\<plusminus> 4 * sqrt (6 / 786)\<close>, the bound of
  \<open>n_visible + n_label\<close>, which is not the bound \<open>4 * sqrt (6 / (n_label + n_hidden))\<close> of
  the two sizes that \<open>U\<close> connects; \<open>W\<close> is drawn between \<open>\<plusminus> 4 * sqrt (6 / 1284)\<close> and
  the three bias vectors are zero.
\<close>

theorem init_default_U_bounds:
  "let s0 = (if theano_rng_given then s else snd (rng_randint L s (2 ^ 30)));
       drawn_U = rng_uniform L s0 (- 4 * sqrt (6 / 786)) (4 * sqrt (6 / 786)) 2 500;
       drawn_W = rng_uniform L (snd drawn_U) (- 4 * sqrt (6 / 1284)) (4 * sqrt (6 / 1284)) 784 500
   in (\<exists>p. init L inp lab 784 500 2 None None None None None s theano_rng_given (1 / 100)
               = Inr (p, snd drawn_W) \<and>
            U p = fst drawn_U \<and> W p = fst drawn_W \<and>
            hbias p = replicate 500 0 \<and> vbias p = replicate 784 0 \<and>
            labbias p = replicate 2 0) \<and>
      4 * sqrt (6 / 786) \<noteq> 4 * sqrt (6 / real (2 + 500))"
  by (simp add: init_def initial_U_def initial_W_def bind_err_def Let_def case_prod_beta)

lemma cost_discriminative_total:
  "same_shape a b \<Longrightarrow>
   cost_discriminative a b = Inr (Scalar (sum_list (map sum_list (sub_mat a b))))"
  by (simp add: cost_discriminative_def)

text \<open>
  C6 (the code differs). The discriminative cost of the code is the sum of all entries of
  the residual: \<open>T.sum\<close> without an axis leaves a scalar, whose mean is itself. On two
  rows of label \<open>[1, 0]\<close> and a zero prediction it is 2, and the mean over the batch of
  the row sums is 1.
\<close>

theorem cost_discriminative_not_mean:
  "cost_discriminative [[1, 0], [1, 0]] [[0, 0], [0, 0]] = Inr (Scalar 2) \<and>
   spec_discriminative_cost [[1, 0], [1, 0]] [[0, 0], [0, 0]] = 1"
  by (simp add: cost_discriminative_def spec_discriminative_cost_def same_shape_def sub_mat_def)

text \<open>
  C7 (the code differs). \<open>gibbs_vhv\<close> raises TypeError on every input: its first call
  leaves the label parameter of \<open>sample_h_given_v\<close> unbound, so nothing is sampled.
\<close>

theorem gibbs_vhv_raises: "gibbs_vhv L p s v0_sample = Inl TypeError"
  by (simp add: gibbs_vhv_def call_sample_h_given_v_def bind_err_def)

lemma get_pseudo_likelihood_cost_raises:
  "get_pseudo_likelihood_cost L p bit_i_idx upd = Inl TypeError"
  by (simp add: get_pseudo_likelihood_cost_def call_free_energy_def bind_err_def)

lemma cd_monitor_reconstruction:
  "get_cost_updates_monitor L p bit_i_idx None upd nh_samples (pres @ [pre]) =
     (case get_reconstruction_cost p upd pre of Inl e \<Rightarrow> Inl e | Inr c \<Rightarrow> Inr (c, upd))"
  by (simp add: get_cost_updates_monitor_def last_item_def bind_err_def split: sum.splits)

text \<open>
  C9 (the code differs). With a persistent buffer, the last stage of
  \<open>get_cost_updates\<close> returns no cost and no updates: it raises IndexError when the
  chain is empty and TypeError otherwise, since the pseudo-likelihood cost calls
  \<open>free_energy\<close> without the label batch.
\<close>

theorem pcd_monitor_raises:
  "get_cost_updates_monitor L p bit_i_idx (Some b) upd nh_samples pre_sigmoid_nvs =
     (if nh_samples = [] then Inl IndexError else Inl TypeError)"
  by (simp add: get_cost_updates_monitor_def last_item_def bind_err_def
      get_pseudo_likelihood_cost_raises)







end
